theory Spec2Isabelle
  imports Main "HOL-Library.Sublist"
begin

section \<open>Makefile driver of PySCHISM (\<^verbatim>\<open>pyschism/driver/makefile.py\<close>)\<close>

text \<open>
  The module renders a Makefile from a server configuration and writes it to a path.
  Python strings are modelled as \<^typ>\<open>string\<close>; every template contains ASCII only.
\<close>

subsection \<open>Python string operations used by the module\<close>

text \<open>The backslash, the tab (\<^verbatim>\<open>"\t"\<close>) and the four-space string of the source.\<close>

abbreviation bs :: string where
  "bs \<equiv> [CHR 0x5C]"

abbreviation tab :: string where
  "tab \<equiv> [CHR 0x09]"

abbreviation four_spaces :: string where
  "four_spaces \<equiv> [CHR '' '', CHR '' '', CHR '' '', CHR '' '']"

text \<open>
  \<^verbatim>\<open>s.replace(old, new)\<close>: scanning from the left, every occurrence of \<open>old\<close> that does
  not overlap an earlier one is replaced by \<open>new\<close>. For an empty \<open>old\<close> Python puts
  \<open>new\<close> around every character.
\<close>

function str_replace :: "string \<Rightarrow> string \<Rightarrow> string \<Rightarrow> string" where
  "str_replace old new [] = (if old = [] then new else [])"
| "str_replace old new (x # xs) =
     (if old = [] then new @ x # str_replace old new xs
      else if prefix old (x # xs)
        then new @ str_replace old new (drop (length old) (x # xs))
        else x # str_replace old new xs)"
  by pat_completeness auto
termination
  by (relation "measure (\<lambda>(old, new, s). length s)") (auto simp: neq_Nil_conv)

text \<open>The call \<^verbatim>\<open>line.replace("    ", "\t")\<close> of both \<^verbatim>\<open>__str__\<close> methods.\<close>

abbreviation tabbed :: "string \<Rightarrow> string" where
  "tabbed \<equiv> str_replace four_spaces tab"

text \<open>\<^verbatim>\<open>sep.join(xs)\<close>.\<close>

fun str_join :: "string \<Rightarrow> string list \<Rightarrow> string" where
  "str_join sep [] = []"
| "str_join sep [x] = x"
| "str_join sep (x # y # ys) = x @ sep @ str_join sep (y # ys)"

text \<open>
  The lines of a text, as \<^verbatim>\<open>s.split("\n")\<close> gives them: the text is cut at every
  newline, and a text without a newline is one line.
\<close>

fun str_lines :: "string \<Rightarrow> string list" where
  "str_lines [] = [] # []"
| "str_lines (c # cs) =
     (if c = CHR 0x0A then [] # str_lines cs
      else (case str_lines cs of
              [] \<Rightarrow> [c] # []
            | l # ls \<Rightarrow> (c # l) # ls))"

subsection \<open>Configurations and Makefile objects\<close>

text \<open>
  The classes \<^verbatim>\<open>ServerConfig\<close> and \<^verbatim>\<open>SlurmConfig\<close> come from \<^verbatim>\<open>pyschism.server\<close>; this
  module reads nothing of them but their class and their \<^verbatim>\<open>str\<close>. A value passed as
  \<^verbatim>\<open>server_config\<close> (\<open>cfg\<close> below) is \<^verbatim>\<open>None\<close>, an instance of \<^verbatim>\<open>SlurmConfig\<close>, another
  \<^verbatim>\<open>ServerConfig\<close>, or an object of any other class (Python does not enforce the
  annotation). The type \<open>'c\<close> stands for the content of the object; \<^verbatim>\<open>str\<close> on
  configurations is a parameter \<open>str_config\<close> of the functions that call it, and the
  content of \<^verbatim>\<open>ServerConfig()\<close> is a parameter \<open>dflt\<close>.
\<close>

datatype 'c config =
    PyNone
  | ServerConfig 'c
  | SlurmConfig 'c
  | OtherObject 'c

text \<open>\<^verbatim>\<open>isinstance(server_config, SlurmConfig)\<close>.\<close>

fun isinstance_SlurmConfig :: "'c config \<Rightarrow> bool" where
  "isinstance_SlurmConfig (SlurmConfig c) = True"
| "isinstance_SlurmConfig _ = False"

datatype makefile_class = DefaultMakefile | SlurmMakefile

record 'c Makefile =
  klass :: makefile_class
  server_config :: "'c config"

text \<open>
  Exceptions; a call that returns is \<open>Inr\<close>, a call that raises is \<open>Inl\<close>. The module
  itself raises one, \<^verbatim>\<open>IOError\<close> with its message. \<^verbatim>\<open>open\<close> raises the errors of the
  operating system, given with the path they name, and \<^verbatim>\<open>str\<close> of a configuration may
  raise anything (\<open>OtherError\<close>).
\<close>

datatype error =
    IOError string
  | FileNotFoundError string
  | NotADirectoryError string
  | IsADirectoryError string
  | PermissionError string
  | OtherError string

text \<open>\<^verbatim>\<open>Makefile.__init__\<close>: the value stored in \<^verbatim>\<open>self.server_config\<close>.\<close>

definition Makefile_init :: "'c \<Rightarrow> 'c config \<Rightarrow> 'c config" where
  "Makefile_init dflt cfg =
     (if cfg = PyNone then ServerConfig dflt else cfg)"

text \<open>\<^verbatim>\<open>DefaultMakefile(server_config)\<close> and \<^verbatim>\<open>SlurmMakefile(server_config)\<close>.\<close>

definition new_DefaultMakefile :: "'c \<Rightarrow> 'c config \<Rightarrow> 'c Makefile" where
  "new_DefaultMakefile dflt cfg =
     \<lparr>klass = DefaultMakefile, server_config = Makefile_init dflt cfg\<rparr>"

definition new_SlurmMakefile :: "'c \<Rightarrow> 'c config \<Rightarrow> 'c Makefile" where
  "new_SlurmMakefile dflt cfg =
     \<lparr>klass = SlurmMakefile, server_config = Makefile_init dflt cfg\<rparr>"

text \<open>\<^verbatim>\<open>MakefileDriver.__new__\<close>. It has no \<^verbatim>\<open>raise\<close>: both branches return.\<close>

definition MakefileDriver :: "'c \<Rightarrow> 'c config \<Rightarrow> error + 'c Makefile" where
  "MakefileDriver dflt cfg =
     (if isinstance_SlurmConfig cfg
      then Inr (new_SlurmMakefile dflt cfg)
      else Inr (new_DefaultMakefile dflt cfg))"

subsection \<open>The templates\<close>

text \<open>
  Each property returns a constant text. The texts are given line by line as in the
  source; in the raw strings a backslash is a backslash (\<open>bs\<close>).
\<close>

definition Makefile_tail :: string where
  \<open>Makefile_tail = concat
    [''\<newline>'',
     ''tail:\<newline>'',
     ''    tail -f outputs/mirror.out  outputs/fatal.error\<newline>'']\<close>

definition Makefile_symlinks :: string where
  \<open>Makefile_symlinks = concat
    [''\<newline>'',
     ''symlinks:\<newline>'',
     ''    @set -e;'' @ bs @ ''\<newline>'',
     ''    if [ ! -z $${SYMLINK_OUTPUTS_DIR} ];'' @ bs @ ''\<newline>'',
     ''    then '' @ bs @ ''\<newline>'',
     ''        ln -sf $${SYMLINK_OUTPUTS_DIR} $${ROOT_DIR}outputs;'' @ bs @ ''\<newline>'',
     ''    else '' @ bs @ ''\<newline>'',
     ''        mkdir -p $${ROOT_DIR}outputs;'' @ bs @ ''\<newline>'',
     ''    fi;'' @ bs @ ''\<newline>'',
     ''    touch outputs/mirror.out outputs/fatal.error\<newline>'']\<close>

definition DefaultMakefile_default :: string where
  \<open>DefaultMakefile_default = concat
    [''\<newline>'',
     ''default: symlinks\<newline>'']\<close>

definition DefaultMakefile_run :: string where
  \<open>DefaultMakefile_run = concat
    [''\<newline>'',
     ''run: default\<newline>'',
     ''    @set -e;'' @ bs @ ''\<newline>'',
     ''    eval 'tail -f outputs/mirror.out  outputs/fatal.error &';'' @ bs @ ''\<newline>'',
     ''    tail_pid=$${!};'' @ bs @ ''\<newline>'',
     ''    ${MPI_LAUNCHER} ${NPROC} ${SCHISM_BINARY};'' @ bs @ ''\<newline>'',
     ''    kill "$${tail_pid}"\<newline>'']\<close>

definition SlurmMakefile_default :: string where
  \<open>SlurmMakefile_default = concat
    [''\<newline>'',
     ''default: slurm\<newline>'']\<close>

definition SlurmMakefile_slurm :: string where
  \<open>SlurmMakefile_slurm = concat
    [''\<newline>'',
     ''slurm: symlinks\<newline>'',
     ''    @set -e;'' @ bs @ ''\<newline>'',
     ''    printf "#!/bin/bash --login'' @ bs @ ''n" > ${SLURM_JOB_FILE};'' @ bs @ ''\<newline>'',
     ''    printf "#SBATCH -D .'' @ bs @ ''n" >> ${SLURM_JOB_FILE};'' @ bs @ ''\<newline>'',
     ''    if [ ! -z "${SLURM_ACCOUNT}" ];'' @ bs @ ''\<newline>'',
     ''    then '' @ bs @ ''\<newline>'',
     ''        printf "#SBATCH -A ${SLURM_ACCOUNT}'' @ bs @ ''n" >> ${SLURM_JOB_FILE};'' @ bs @ ''\<newline>'',
     ''    fi;'' @ bs @ ''\<newline>'',
     ''    if [ ! -z "${SLURM_MAIL_USER}" ];'' @ bs @ ''\<newline>'',
     ''    then '' @ bs @ ''\<newline>'',
     ''        printf "#SBATCH --mail-user=${SLURM_MAIL_USER}'' @ bs @ ''n" >> ${SLURM_JOB_FILE};'' @ bs @ ''\<newline>'',
     ''        printf "#SBATCH --mail-type=${SLURM_MAIL_TYPE:-all}'' @ bs @ ''n" >> ${SLURM_JOB_FILE};'' @ bs @ ''\<newline>'',
     ''    fi;'' @ bs @ ''\<newline>'',
     ''    printf "#SBATCH --output=${SLURM_LOG_FILE}'' @ bs @ ''n" >> ${SLURM_JOB_FILE};'' @ bs @ ''\<newline>'',
     ''    printf "#SBATCH -n ${SLURM_NTASKS}'' @ bs @ ''n" >> ${SLURM_JOB_FILE};'' @ bs @ ''\<newline>'',
     ''    if [ ! -z "${SLURM_WALLTIME}" ];'' @ bs @ ''\<newline>'',
     ''    then '' @ bs @ ''\<newline>'',
     ''        printf "#SBATCH --time=${SLURM_WALLTIME}'' @ bs @ ''n" >> ${SLURM_JOB_FILE};'' @ bs @ ''\<newline>'',
     ''    fi;'' @ bs @ ''\<newline>'',
     ''    if [ ! -z "${SLURM_PARTITION}" ] ;'' @ bs @ ''\<newline>'',
     ''    then '' @ bs @ ''\<newline>'',
     ''        printf "#SBATCH --partition=${SLURM_PARTITION}'' @ bs @ ''n" >> ${SLURM_JOB_FILE};'' @ bs @ ''\<newline>'',
     ''    fi;'' @ bs @ ''\<newline>'',
     ''    printf "'' @ bs @ ''nset -e'' @ bs @ ''n" >> ${SLURM_JOB_FILE};'' @ bs @ ''\<newline>'',
     ''    printf "${MPI_LAUNCHER} ${SCHISM_BINARY}" >> ${SLURM_JOB_FILE}\<newline>'']\<close>

definition SlurmMakefile_run :: string where
  \<open>SlurmMakefile_run = concat
    [''\<newline>'',
     ''run: $(if ! $("$(wildcard $(SLURM_JOB_FILE))",""), slurm)\<newline>'',
     ''    @set -e;'' @ bs @ ''\<newline>'',
     ''    touch ${SLURM_LOG_FILE};'' @ bs @ ''\<newline>'',
     ''    eval 'tail -f ${SLURM_LOG_FILE} outputs/mirror.out outputs/fatal.error &';'' @ bs @ ''\<newline>'',
     ''    tail_pid=$${!};'' @ bs @ ''\<newline>'',
     ''    job_id=$$(sbatch ${SLURM_JOB_FILE});'' @ bs @ ''\<newline>'',
     ''    printf "$${job_id}'' @ bs @ ''n";'' @ bs @ ''\<newline>'',
     ''    job_id=$$(echo $${job_id} | awk '{print $$NF}');'' @ bs @ ''\<newline>'',
     ''    ctrl_c() { '' @ bs @ ''\<newline>'',
     ''        scancel "$${job_id}";'' @ bs @ ''\<newline>'',
     ''    };'' @ bs @ ''\<newline>'',
     ''    while [ $$(squeue -j $${job_id} | wc -l) -eq 2 ];'' @ bs @ ''\<newline>'',
     ''    do '' @ bs @ ''\<newline>'',
     ''        trap ctrl_c SIGINT;'' @ bs @ ''\<newline>'',
     ''    done;'' @ bs @ ''\<newline>'',
     ''    kill "$${tail_pid}"\<newline>'']\<close>

subsection \<open>Rendering\<close>

text \<open>The list \<^verbatim>\<open>f\<close> of \<^verbatim>\<open>DefaultMakefile.__str__\<close> and of \<^verbatim>\<open>SlurmMakefile.__str__\<close>.\<close>

definition DefaultMakefile_f :: "('c config \<Rightarrow> string) \<Rightarrow> 'c Makefile \<Rightarrow> string list" where
  \<open>DefaultMakefile_f str_config self =
     [''# Makefile driver generated by PySCHISM.'',
      ''MAKEFILE_PATH:=$(abspath $(lastword $(MAKEFILE_LIST)))'',
      ''ROOT_DIR:=$(dir $(MAKEFILE_PATH))'',
      str_config (server_config self),
      DefaultMakefile_default,
      Makefile_symlinks,
      DefaultMakefile_run,
      Makefile_tail]\<close>

definition SlurmMakefile_f :: "('c config \<Rightarrow> string) \<Rightarrow> 'c Makefile \<Rightarrow> string list" where
  \<open>SlurmMakefile_f str_config self =
     [''# Makefile driver generated by PySCHISM.'',
      ''MAKEFILE_PATH:=$(abspath $(lastword $(MAKEFILE_LIST)))'',
      ''ROOT_DIR:=$(dir $(MAKEFILE_PATH))'',
      str_config (server_config self),
      SlurmMakefile_default,
      Makefile_symlinks,
      SlurmMakefile_slurm,
      SlurmMakefile_run,
      Makefile_tail]\<close>

text \<open>
  \<^verbatim>\<open>"\n".join([line.replace("    ", "\t") for line in f])\<close>: the replacement runs over
  each whole element of \<open>f\<close>.
\<close>

definition DefaultMakefile_str :: "('c config \<Rightarrow> string) \<Rightarrow> 'c Makefile \<Rightarrow> string" where
  "DefaultMakefile_str str_config self =
     str_join [CHR 0x0A] (map tabbed (DefaultMakefile_f str_config self))"

definition SlurmMakefile_str :: "('c config \<Rightarrow> string) \<Rightarrow> 'c Makefile \<Rightarrow> string" where
  "SlurmMakefile_str str_config self =
     str_join [CHR 0x0A] (map tabbed (SlurmMakefile_f str_config self))"

text \<open>\<^verbatim>\<open>str(self)\<close> and the list \<^verbatim>\<open>f\<close>, by the class of the object.\<close>

definition Makefile_f :: "('c config \<Rightarrow> string) \<Rightarrow> 'c Makefile \<Rightarrow> string list" where
  "Makefile_f str_config self =
     (case klass self of
        DefaultMakefile \<Rightarrow> DefaultMakefile_f str_config self
      | SlurmMakefile \<Rightarrow> SlurmMakefile_f str_config self)"

definition Makefile_str :: "('c config \<Rightarrow> string) \<Rightarrow> 'c Makefile \<Rightarrow> string" where
  "Makefile_str str_config self =
     (case klass self of
        DefaultMakefile \<Rightarrow> DefaultMakefile_str str_config self
      | SlurmMakefile \<Rightarrow> SlurmMakefile_str str_config self)"

subsection \<open>Writing the file\<close>

text \<open>
  The file system holds, for every path that exists, a regular file with its content or
  a directory, and the set of paths that the process may not write to. \<open>path\<close> is the
  \<^verbatim>\<open>pathlib.Path\<close> of line 17, given by its \<^verbatim>\<open>str\<close>; the current directory is \<^verbatim>\<open>.\<close>.
\<close>

datatype node = File string | Directory

record filesystem =
  nodes :: "string \<rightharpoonup> node"
  read_only :: "string set"

text \<open>\<^verbatim>\<open>path.exists()\<close>: true of a file and of a directory.\<close>

definition path_exists :: "filesystem \<Rightarrow> string \<Rightarrow> bool" where
  "path_exists fs path = (nodes fs path \<noteq> None)"

text \<open>
  The directory that holds a path: the text before its last \<^verbatim>\<open>/\<close>, the root for a path
  directly under the root, and the current directory for a path without \<^verbatim>\<open>/\<close>.
\<close>

definition dirname :: "string \<Rightarrow> string" where
  "dirname path =
     (case rev (dropWhile (\<lambda>c. c \<noteq> CHR ''/'') (rev path)) of
        [] \<Rightarrow> ''.''
      | d # ds \<Rightarrow> (if ds = [] then ''/'' else butlast (d # ds)))"

text \<open>
  \<^verbatim>\<open>open(path, 'w')\<close>. The module creates no directory and catches nothing, so the call
  raises when the path is a directory, when the directory that should hold a new file is
  missing or is a regular file, and when the process may not write there. When it
  returns, the file exists and is empty: an existing file is truncated at once.
\<close>

definition open_w :: "filesystem \<Rightarrow> string \<Rightarrow> error + filesystem" where
  "open_w fs path =
     (case nodes fs path of
        Some Directory \<Rightarrow> Inl (IsADirectoryError path)
      | Some (File old) \<Rightarrow>
          (if path \<in> read_only fs then Inl (PermissionError path)
           else Inr (fs\<lparr>nodes := (nodes fs)(path \<mapsto> File [])\<rparr>))
      | None \<Rightarrow>
          (case nodes fs (dirname path) of
             None \<Rightarrow> Inl (FileNotFoundError path)
           | Some (File other) \<Rightarrow> Inl (NotADirectoryError path)
           | Some Directory \<Rightarrow>
               (if dirname path \<in> read_only fs then Inl (PermissionError path)
                else Inr (fs\<lparr>nodes := (nodes fs)(path \<mapsto> File [])\<rparr>))))"

text \<open>
  \<^verbatim>\<open>str(self)\<close> as \<^verbatim>\<open>write\<close> calls it. \<^verbatim>\<open>__str__\<close> calls \<^verbatim>\<open>str(self.server_config)\<close>, which
  may raise; when it returns \<open>s\<close>, the text is the one of the class with \<open>s\<close> as the text of
  the configuration.
\<close>

definition str_self :: "('c config \<Rightarrow> error + string) \<Rightarrow> 'c Makefile \<Rightarrow> error + string" where
  "str_self str_config self =
     (case str_config (server_config self) of
        Inl e \<Rightarrow> Inl e
      | Inr s \<Rightarrow> Inr (Makefile_str (\<lambda>c. s) self))"

text \<open>
  Lines 21 and 22, \<^verbatim>\<open>with open(path, 'w') as f: f.write(str(self))\<close>: the file is opened,
  and so emptied, before \<^verbatim>\<open>str(self)\<close> is evaluated; an exception of \<^verbatim>\<open>str(self)\<close> leaves the
  file empty.
\<close>

definition write_file ::
  "('c config \<Rightarrow> error + string) \<Rightarrow> 'c Makefile \<Rightarrow> filesystem \<Rightarrow> string
    \<Rightarrow> (error + unit) \<times> filesystem" where
  "write_file str_config self fs path =
     (case open_w fs path of
        Inl e \<Rightarrow> (Inl e, fs)
      | Inr opened \<Rightarrow>
          (case str_self str_config self of
             Inl e \<Rightarrow> (Inl e, opened)
           | Inr text \<Rightarrow> (Inr (), opened\<lparr>nodes := (nodes opened)(path \<mapsto> File text)\<rparr>)))"

text \<open>
  The argument \<^verbatim>\<open>overwrite\<close> is any Python value. \<^verbatim>\<open>overwrite is not True\<close> compares
  identity with the object \<^verbatim>\<open>True\<close>, so it is false for that object alone.
\<close>

datatype py_value = PyBool bool | PyInt int | PyStr string | PyNoneValue

definition is_not_True :: "py_value \<Rightarrow> bool" where
  "is_not_True v = (v \<noteq> PyBool True)"

text \<open>
  \<^verbatim>\<open>Makefile.write\<close>, returning the exception or nothing, and the file system after the
  call.
\<close>

definition Makefile_write ::
  "('c config \<Rightarrow> error + string) \<Rightarrow> 'c Makefile \<Rightarrow> filesystem \<Rightarrow> string \<Rightarrow> py_value
    \<Rightarrow> (error + unit) \<times> filesystem" where
  "Makefile_write str_config self fs path overwrite =
     (if path_exists fs path \<and> is_not_True overwrite
      then (Inl (IOError (''File '' @ path @ '' exists and overwrite is not True.'')), fs)
      else write_file str_config self fs path)"

subsection \<open>Indentation of a line\<close>

text \<open>The number of spaces a line begins with.\<close>

definition indent :: "string \<Rightarrow> nat" where
  "indent l = length (takeWhile (\<lambda>c. c = CHR '' '') l)"

subsection \<open>A configuration for the instances\<close>

text \<open>
  For the concrete instances below a configuration holds its \<^verbatim>\<open>str\<close> text and a number
  that the text does not show; \<^verbatim>\<open>str(None)\<close> is \<^verbatim>\<open>"None"\<close>.
\<close>

definition example_str :: "(string \<times> nat) config \<Rightarrow> string" where
  "example_str cfg =
     (case cfg of
        PyNone \<Rightarrow> ''None''
      | ServerConfig c \<Rightarrow> fst c
      | SlurmConfig c \<Rightarrow> fst c
      | OtherObject c \<Rightarrow> fst c)"

text \<open>The same \<^verbatim>\<open>str\<close> as a call that returns.\<close>

definition example_str_result :: "(string \<times> nat) config \<Rightarrow> error + string" where
  "example_str_result cfg = Inr (example_str cfg)"

section \<open>Properties\<close>

subsection \<open>The class of the object decides the text\<close>

lemma Makefile_str_cong:
  "klass m1 = klass m2 \<Longrightarrow> str_config (server_config m1) = str_config (server_config m2)
   \<Longrightarrow> Makefile_str str_config m1 = Makefile_str str_config m2"
  by (simp add: Makefile_str_def DefaultMakefile_str_def SlurmMakefile_str_def
      DefaultMakefile_f_def SlurmMakefile_f_def split: makefile_class.splits)

lemma MakefileDriver_klass:
  "MakefileDriver dflt cfg = Inr m \<Longrightarrow>
   klass m = (if isinstance_SlurmConfig cfg then SlurmMakefile else DefaultMakefile)"
  by (auto simp: MakefileDriver_def new_SlurmMakefile_def new_DefaultMakefile_def split: if_splits)

subsection \<open>Lines of the rendered text\<close>

text \<open>
  The text of a Makefile object is cut into the lines of the elements of \<^verbatim>\<open>f\<close>, each
  with its four-space sequences replaced: no four-space sequence contains a newline, and
  the elements are joined by newlines.
\<close>

lemma str_lines_not_Nil [simp]: "str_lines s \<noteq> []"
  by (induction s) (auto split: list.splits)

lemma str_lines_Cons:
  "c \<noteq> CHR 0x0A \<Longrightarrow> str_lines (c # cs) = (c # hd (str_lines cs)) # tl (str_lines cs)"
  by (cases "str_lines cs") auto

lemma str_lines_append_newline:
  "str_lines (a @ CHR 0x0A # b) = str_lines a @ str_lines b"
  by (induction a) (auto split: list.splits)

lemma str_lines_join:
  "xs \<noteq> [] \<Longrightarrow> str_lines (str_join [CHR 0x0A] xs) = concat (map str_lines xs)"
  by (induction "[CHR 0x0A]" xs rule: str_join.induct) (auto simp: str_lines_append_newline)

lemma tabbed_Nil: "tabbed [] = []"
  by simp

lemma tabbed_four_spaces: "tabbed (four_spaces @ s) = tab @ tabbed s"
  by simp

lemma tabbed_other: "\<not> prefix four_spaces (x # xs) \<Longrightarrow> tabbed (x # xs) = x # tabbed xs"
  by auto

lemma prefix_hd_str_lines: "prefix (hd (str_lines s)) s"
  by (induction s) (auto split: list.splits)

lemma prefix_first_line:
  "CHR 0x0A \<notin> set p \<Longrightarrow> prefix p (hd (str_lines s)) \<longleftrightarrow> prefix p s"
  by (induction s arbitrary: p) (auto simp: prefix_Cons split: list.splits)

lemma str_lines_four_spaces:
  "str_lines (four_spaces @ r) = (four_spaces @ hd (str_lines r)) # tl (str_lines r)"
  by (simp add: str_lines_Cons del: str_lines.simps)

lemma str_lines_tabbed: "str_lines (tabbed s) = map tabbed (str_lines s)"
proof (induction four_spaces tab s rule: str_replace.induct)
  case 1
  then show ?case by simp
next
  case (2 x xs)
  show ?case
  proof (cases "prefix four_spaces (x # xs)")
    case True
    then obtain r where r: "x # xs = four_spaces @ r"
      by (auto simp: prefix_def)
    then have dr: "drop (length four_spaces) (x # xs) = r"
      by simp
    have "str_lines (tabbed (drop (length four_spaces) (x # xs)))
          = map tabbed (str_lines (drop (length four_spaces) (x # xs)))"
      by (rule 2(2)) (simp, rule True)
    then have IH: "str_lines (tabbed r) = map tabbed (str_lines r)"
      by (simp only: dr)
    have "str_lines (tabbed (four_spaces @ r))
          = (CHR 0x09 # hd (str_lines (tabbed r))) # tl (str_lines (tabbed r))"
      by (simp add: str_lines_Cons del: str_lines.simps)
    also have "\<dots> = (tab @ tabbed (hd (str_lines r))) # map tabbed (tl (str_lines r))"
      by (simp add: IH hd_map map_tl)
    also have "\<dots> = map tabbed (str_lines (four_spaces @ r))"
      by (simp only: str_lines_four_spaces list.map tabbed_four_spaces)
    finally show ?thesis
      by (simp only: r)
  next
    case False
    have IH: "str_lines (tabbed xs) = map tabbed (str_lines xs)"
      by (rule 2(3)) (simp, rule False)
    have step: "tabbed (x # xs) = x # tabbed xs"
      using False by (rule tabbed_other)
    show ?thesis
    proof (cases "x = CHR 0x0A")
      case True
      then show ?thesis
        by (simp only: step) (simp add: IH)
    next
      case nl: False
      have "\<not> prefix four_spaces (hd (str_lines (x # xs)))"
        using False by (simp add: prefix_first_line del: str_lines.simps)
      then have "\<not> prefix four_spaces (x # hd (str_lines xs))"
        using nl by (simp add: str_lines_Cons del: str_lines.simps)
      then have "tabbed (x # hd (str_lines xs)) = x # tabbed (hd (str_lines xs))"
        by (rule tabbed_other)
      then show ?thesis
        using nl by (simp only: step) (simp add: str_lines_Cons IH hd_map map_tl del: str_lines.simps str_replace.simps)
    qed
  qed
qed

lemma str_lines_join_tabbed:
  "xs \<noteq> [] \<Longrightarrow>
   str_lines (str_join [CHR 0x0A] (map tabbed xs)) = concat (map (\<lambda>s. map tabbed (str_lines s)) xs)"
  by (simp add: str_lines_join str_lines_tabbed comp_def del: str_lines.simps str_replace.simps)

lemma Makefile_f_not_Nil: "Makefile_f str_config self \<noteq> []"
  by (simp add: Makefile_f_def DefaultMakefile_f_def SlurmMakefile_f_def split: makefile_class.splits)

lemma Makefile_str_join:
  "Makefile_str str_config self = str_join [CHR 0x0A] (map tabbed (Makefile_f str_config self))"
  by (simp add: Makefile_str_def Makefile_f_def DefaultMakefile_str_def SlurmMakefile_str_def
      split: makefile_class.splits)

lemma str_lines_Makefile_str:
  "str_lines (Makefile_str str_config self)
   = concat (map (\<lambda>s. map tabbed (str_lines s)) (Makefile_f str_config self))"
  by (simp only: Makefile_str_join str_lines_join_tabbed [OF Makefile_f_not_Nil])

lemma tabbed_line_in_output:
  "s \<in> set (Makefile_f str_config self) \<Longrightarrow> l \<in> set (str_lines s)
   \<Longrightarrow> tabbed l \<in> set (str_lines (Makefile_str str_config self))"
  by (auto simp: str_lines_Makefile_str simp del: str_lines.simps str_replace.simps)

lemma tabbed_no_four_spaces: "\<not> sublist four_spaces r \<Longrightarrow> tabbed r = r"
  by (induction r) (auto simp: sublist_Cons_right)

lemma tabbed_indent:
  "\<not> sublist four_spaces r \<Longrightarrow>
   tabbed (replicate (4 * k) (CHR '' '') @ r) = replicate k (CHR 0x09) @ r"
proof (induction k)
  case 0
  then show ?case by (simp add: tabbed_no_four_spaces del: str_replace.simps)
next
  case (Suc k)
  have "4 * Suc k = Suc (Suc (Suc (Suc (4 * k))))"
    by simp
  then have "replicate (4 * Suc k) (CHR '' '') @ r = four_spaces @ (replicate (4 * k) (CHR '' '') @ r)"
    by (simp only: replicate_Suc append_Cons append_Nil)
  then show ?case
    using Suc by (simp only: tabbed_four_spaces) simp
qed

subsection \<open>Indentation and tabs\<close>

text \<open>
  A line that begins with \<open>4 * k\<close> spaces and has no four-space sequence after them is
  rendered with \<open>k\<close> tabs in their place. Every line of the constant elements of \<^verbatim>\<open>f\<close>
  begins with 0, 4 or 8 spaces and has no four-space sequence after them.
\<close>

lemma takeWhile_spaces: "takeWhile (\<lambda>c. c = a) l = replicate (length (takeWhile (\<lambda>c. c = a) l)) a"
  by (induction l) auto

lemma split_at_indent: "l = replicate (indent l) (CHR '' '') @ drop (indent l) l"
proof -
  have "l = takeWhile (\<lambda>c. c = CHR '' '') l @ dropWhile (\<lambda>c. c = CHR '' '') l"
    by simp
  also have "dropWhile (\<lambda>c. c = CHR '' '') l = drop (indent l) l"
    by (simp add: indent_def dropWhile_eq_drop)
  also have "takeWhile (\<lambda>c. c = CHR '' '') l = replicate (indent l) (CHR '' '')"
    unfolding indent_def by (rule takeWhile_spaces)
  finally show ?thesis .
qed

lemma tabbed_by_indent:
  assumes "indent l mod 4 = 0" and "\<not> sublist four_spaces (drop (indent l) l)"
  shows "tabbed l = replicate (indent l div 4) (CHR 0x09) @ drop (indent l) l"
proof -
  from assms(1) have "indent l = 4 * (indent l div 4)"
    by presburger
  then have "l = replicate (4 * (indent l div 4)) (CHR '' '') @ drop (indent l) l"
    using split_at_indent [of l] by simp
  then have "tabbed l = tabbed (replicate (4 * (indent l div 4)) (CHR '' '') @ drop (indent l) l)"
    by (rule arg_cong)
  also have "\<dots> = replicate (indent l div 4) (CHR 0x09) @ drop (indent l) l"
    using assms(2) by (rule tabbed_indent)
  finally show ?thesis .
qed

lemma header_lines_indent:
  \<open>\<forall>l \<in> set (str_lines ''# Makefile driver generated by PySCHISM.'').
     indent l \<in> {0, 4, 8} \<and> \<not> sublist four_spaces (drop (indent l) l)\<close>
  \<open>\<forall>l \<in> set (str_lines ''MAKEFILE_PATH:=$(abspath $(lastword $(MAKEFILE_LIST)))'').
     indent l \<in> {0, 4, 8} \<and> \<not> sublist four_spaces (drop (indent l) l)\<close>
  \<open>\<forall>l \<in> set (str_lines ''ROOT_DIR:=$(dir $(MAKEFILE_PATH))'').
     indent l \<in> {0, 4, 8} \<and> \<not> sublist four_spaces (drop (indent l) l)\<close>
  by code_simp+

lemma default_lines_indent:
  "\<forall>l \<in> set (str_lines DefaultMakefile_default).
     indent l \<in> {0, 4, 8} \<and> \<not> sublist four_spaces (drop (indent l) l)"
  "\<forall>l \<in> set (str_lines SlurmMakefile_default).
     indent l \<in> {0, 4, 8} \<and> \<not> sublist four_spaces (drop (indent l) l)"
  by code_simp+

lemma symlinks_lines_indent:
  "\<forall>l \<in> set (str_lines Makefile_symlinks).
     indent l \<in> {0, 4, 8} \<and> \<not> sublist four_spaces (drop (indent l) l)"
  by code_simp+

lemma tail_lines_indent:
  "\<forall>l \<in> set (str_lines Makefile_tail).
     indent l \<in> {0, 4, 8} \<and> \<not> sublist four_spaces (drop (indent l) l)"
  by code_simp+

lemma DefaultMakefile_run_lines_indent:
  "\<forall>l \<in> set (str_lines DefaultMakefile_run).
     indent l \<in> {0, 4, 8} \<and> \<not> sublist four_spaces (drop (indent l) l)"
  by code_simp+

lemma SlurmMakefile_run_lines_indent:
  "\<forall>l \<in> set (str_lines SlurmMakefile_run).
     indent l \<in> {0, 4, 8} \<and> \<not> sublist four_spaces (drop (indent l) l)"
  by code_simp+

lemma SlurmMakefile_slurm_lines_indent:
  "\<forall>l \<in> set (str_lines SlurmMakefile_slurm).
     indent l \<in> {0, 4, 8} \<and> \<not> sublist four_spaces (drop (indent l) l)"
  by code_simp+

lemma nth_cases8:
  "i < 8 \<Longrightarrow> i \<noteq> 3 \<Longrightarrow> Q a \<Longrightarrow> Q b \<Longrightarrow> Q c \<Longrightarrow> Q e \<Longrightarrow> Q f \<Longrightarrow> Q g \<Longrightarrow> Q h
   \<Longrightarrow> Q ([a, b, c, d, e, f, g, h] ! i)"
  by (auto simp: nth_Cons' less_Suc_eq numeral_eq_Suc)

lemma nth_cases9:
  "i < 9 \<Longrightarrow> i \<noteq> 3 \<Longrightarrow> Q a \<Longrightarrow> Q b \<Longrightarrow> Q c \<Longrightarrow> Q e \<Longrightarrow> Q f \<Longrightarrow> Q g \<Longrightarrow> Q h \<Longrightarrow> Q k
   \<Longrightarrow> Q ([a, b, c, d, e, f, g, h, k] ! i)"
  by (auto simp: nth_Cons' less_Suc_eq numeral_eq_Suc)

lemma nth_fixed_lines_indent:
  assumes "i < length (Makefile_f str_config self)" and "i \<noteq> 3"
  shows "\<forall>l \<in> set (str_lines (Makefile_f str_config self ! i)).
           indent l \<in> {0, 4, 8} \<and> \<not> sublist four_spaces (drop (indent l) l)"
proof (cases "klass self")
  case DefaultMakefile
  then have f: "Makefile_f str_config self = DefaultMakefile_f str_config self"
    by (simp add: Makefile_f_def)
  have "length (DefaultMakefile_f str_config self) = 8"
    by (simp add: DefaultMakefile_f_def)
  with assms(1) have i: "i < 8"
    by (simp only: f)
  show ?thesis
    unfolding f DefaultMakefile_f_def
    by (rule nth_cases8 [where Q = "\<lambda>s. \<forall>l \<in> set (str_lines s).
          indent l \<in> {0, 4, 8} \<and> \<not> sublist four_spaces (drop (indent l) l)",
          OF i assms(2) header_lines_indent default_lines_indent(1) symlinks_lines_indent
            DefaultMakefile_run_lines_indent tail_lines_indent])
next
  case SlurmMakefile
  then have f: "Makefile_f str_config self = SlurmMakefile_f str_config self"
    by (simp add: Makefile_f_def)
  have "length (SlurmMakefile_f str_config self) = 9"
    by (simp add: SlurmMakefile_f_def)
  with assms(1) have i: "i < 9"
    by (simp only: f)
  show ?thesis
    unfolding f SlurmMakefile_f_def
    by (rule nth_cases9 [where Q = "\<lambda>s. \<forall>l \<in> set (str_lines s).
          indent l \<in> {0, 4, 8} \<and> \<not> sublist four_spaces (drop (indent l) l)",
          OF i assms(2) header_lines_indent default_lines_indent(2) symlinks_lines_indent
            SlurmMakefile_slurm_lines_indent SlurmMakefile_run_lines_indent tail_lines_indent])
qed

subsection \<open>Selection of the renderer\<close>

text \<open>
  C1. For a \<^verbatim>\<open>SlurmConfig\<close> the driver returns a \<^verbatim>\<open>SlurmMakefile\<close> holding the
  configuration, whose text is the one of \<^verbatim>\<open>SlurmMakefile.__str__\<close>; for a plain
  \<^verbatim>\<open>ServerConfig\<close> and for \<^verbatim>\<open>None\<close> it returns a \<^verbatim>\<open>DefaultMakefile\<close>, whose text is the
  one of \<^verbatim>\<open>DefaultMakefile.__str__\<close>.
\<close>

theorem MakefileDriver_selects_renderer:
  "MakefileDriver dflt (SlurmConfig c) = Inr \<lparr>klass = SlurmMakefile, server_config = SlurmConfig c\<rparr>
   \<and> MakefileDriver dflt (ServerConfig c) = Inr \<lparr>klass = DefaultMakefile, server_config = ServerConfig c\<rparr>
   \<and> MakefileDriver dflt PyNone = Inr \<lparr>klass = DefaultMakefile, server_config = ServerConfig dflt\<rparr>
   \<and> Makefile_str str_config \<lparr>klass = SlurmMakefile, server_config = SlurmConfig c\<rparr>
       = SlurmMakefile_str str_config \<lparr>klass = SlurmMakefile, server_config = SlurmConfig c\<rparr>
   \<and> Makefile_str str_config \<lparr>klass = DefaultMakefile, server_config = ServerConfig c\<rparr>
       = DefaultMakefile_str str_config \<lparr>klass = DefaultMakefile, server_config = ServerConfig c\<rparr>"
  by (simp add: MakefileDriver_def new_SlurmMakefile_def new_DefaultMakefile_def
      Makefile_init_def Makefile_str_def)

text \<open>
  C5, as the claim states it, fails: for an object that is neither a \<^verbatim>\<open>SlurmConfig\<close> nor
  a \<^verbatim>\<open>ServerConfig\<close> the driver raises nothing and returns a \<^verbatim>\<open>DefaultMakefile\<close>.
\<close>

theorem unrecognized_config_counterexample:
  "MakefileDriver (''NPROC=1'', 0) (OtherObject (''anything'', 7))
   = Inr \<lparr>klass = DefaultMakefile, server_config = OtherObject (''anything'', 7 :: nat)\<rparr>"
  by (simp add: MakefileDriver_def new_DefaultMakefile_def Makefile_init_def)

text \<open>
  C5, amended. For an object of any other class the driver returns the default renderer
  holding that object, and the driver raises for no value of \<^verbatim>\<open>server_config\<close> at all.
\<close>

theorem unrecognized_config_falls_back:
  "MakefileDriver dflt (OtherObject c) = Inr \<lparr>klass = DefaultMakefile, server_config = OtherObject c\<rparr>
   \<and> MakefileDriver dflt cfg \<noteq> Inl e"
  by (simp add: MakefileDriver_def new_DefaultMakefile_def Makefile_init_def)

text \<open>
  C9. Two configurations of the same variant whose objects hold configurations with the
  same \<^verbatim>\<open>str\<close> text give the same script, character for character.
\<close>

theorem script_determined_by_rendering:
  assumes "MakefileDriver dflt c1 = Inr m1" and "MakefileDriver dflt c2 = Inr m2"
    and "isinstance_SlurmConfig c1 = isinstance_SlurmConfig c2"
    and "str_config (server_config m1) = str_config (server_config m2)"
  shows "Makefile_str str_config m1 = Makefile_str str_config m2"
  using assms by (intro Makefile_str_cong) (simp_all add: MakefileDriver_klass)

theorem script_determined_by_rendering_witness:
  "MakefileDriver (''NPROC=1'', 0) (ServerConfig (''NPROC=4'', 1))
     = Inr \<lparr>klass = DefaultMakefile, server_config = ServerConfig (''NPROC=4'', 1 :: nat)\<rparr>
   \<and> MakefileDriver (''NPROC=1'', 0) (ServerConfig (''NPROC=4'', 2))
     = Inr \<lparr>klass = DefaultMakefile, server_config = ServerConfig (''NPROC=4'', 2 :: nat)\<rparr>
   \<and> ServerConfig (''NPROC=4'', 1 :: nat) \<noteq> ServerConfig (''NPROC=4'', 2)
   \<and> Makefile_str example_str \<lparr>klass = DefaultMakefile, server_config = ServerConfig (''NPROC=4'', 1)\<rparr>
     = Makefile_str example_str \<lparr>klass = DefaultMakefile, server_config = ServerConfig (''NPROC=4'', 2)\<rparr>"
proof -
  have h1: "MakefileDriver (''NPROC=1'', 0) (ServerConfig (''NPROC=4'', 1))
     = Inr \<lparr>klass = DefaultMakefile, server_config = ServerConfig (''NPROC=4'', 1 :: nat)\<rparr>"
    by (simp add: MakefileDriver_def new_DefaultMakefile_def Makefile_init_def)
  have h2: "MakefileDriver (''NPROC=1'', 0) (ServerConfig (''NPROC=4'', 2))
     = Inr \<lparr>klass = DefaultMakefile, server_config = ServerConfig (''NPROC=4'', 2 :: nat)\<rparr>"
    by (simp add: MakefileDriver_def new_DefaultMakefile_def Makefile_init_def)
  have h3: "isinstance_SlurmConfig (ServerConfig (''NPROC=4'', 1 :: nat))
            = isinstance_SlurmConfig (ServerConfig (''NPROC=4'', 2 :: nat))"
    by simp
  have h4: "example_str (server_config \<lparr>klass = DefaultMakefile, server_config = ServerConfig (''NPROC=4'', 1)\<rparr>)
          = example_str (server_config \<lparr>klass = DefaultMakefile, server_config = ServerConfig (''NPROC=4'', 2)\<rparr>)"
    by (simp add: example_str_def)
  show ?thesis
    using h1 h2 script_determined_by_rendering [OF h1 h2 h3 h4] by simp
qed

subsection \<open>Writing\<close>


lemma open_w_existing_file:
  assumes "nodes fs path = Some (File old)" and "path \<notin> read_only fs"
  shows "open_w fs path = Inr (fs\<lparr>nodes := (nodes fs)(path \<mapsto> File [])\<rparr>)"
  using assms by (simp add: open_w_def)

lemma write_file_stores_text:
  assumes "open_w fs path = Inr (fs\<lparr>nodes := (nodes fs)(path \<mapsto> File [])\<rparr>)"
    and "str_config (server_config self) = Inr s"
  shows "write_file str_config self fs path
         = (Inr (), fs\<lparr>nodes := (nodes fs)(path \<mapsto> File (Makefile_str (\<lambda>c. s) self))\<rparr>)"
  using assms by (simp add: write_file_def str_self_def)

text \<open>The text stored is the one of the renderer for the \<^verbatim>\<open>str\<close> of the configuration.\<close>

lemma Makefile_str_of_config_text:
  "Makefile_str (\<lambda>c. str_config (server_config self)) self = Makefile_str str_config self"
  by (simp add: Makefile_str_def DefaultMakefile_str_def SlurmMakefile_str_def
      DefaultMakefile_f_def SlurmMakefile_f_def split: makefile_class.splits)

text \<open>
  Where \<^verbatim>\<open>open\<close> raises, \<^verbatim>\<open>write\<close> raises the same and the file system is as it was; where
  \<^verbatim>\<open>str\<close> of the configuration raises, \<^verbatim>\<open>write\<close> raises the same and leaves the file empty.
\<close>

lemma write_file_open_raises:
  "open_w fs path = Inl e \<Longrightarrow> write_file str_config self fs path = (Inl e, fs)"
  by (simp add: write_file_def)

lemma write_file_str_raises:
  assumes "open_w fs path = Inr opened" and "str_config (server_config self) = Inl e"
  shows "write_file str_config self fs path = (Inl e, opened)"
  using assms by (simp add: write_file_def str_self_def)

lemma open_w_empties:
  "open_w fs path = Inr opened \<Longrightarrow> nodes opened path = Some (File [])"
  by (auto simp: open_w_def split: option.splits node.splits if_splits)

text \<open>
  C2. When the path exists and \<^verbatim>\<open>overwrite\<close> is \<^verbatim>\<open>False\<close>, \<^verbatim>\<open>write\<close> raises \<^verbatim>\<open>IOError\<close>
  and the file system, so also the file at the path, is as it was before the call.
\<close>

theorem write_existing_no_overwrite:
  assumes "path_exists fs path"
  shows "Makefile_write str_config self fs path (PyBool False)
         = (Inl (IOError (''File '' @ path @ '' exists and overwrite is not True.'')), fs)"
  using assms by (simp add: Makefile_write_def is_not_True_def)

theorem write_existing_no_overwrite_witness:
  "path_exists
     \<lparr>nodes = [''.'' \<mapsto> Directory, ''Makefile'' \<mapsto> File ''old''], read_only = {}\<rparr> ''Makefile''
   \<and> Makefile_write example_str_result
        \<lparr>klass = DefaultMakefile, server_config = ServerConfig (''NPROC=4'', 0)\<rparr>
        \<lparr>nodes = [''.'' \<mapsto> Directory, ''Makefile'' \<mapsto> File ''old''], read_only = {}\<rparr>
        ''Makefile'' (PyBool False)
       = (Inl (IOError ''File Makefile exists and overwrite is not True.''),
          \<lparr>nodes = [''.'' \<mapsto> Directory, ''Makefile'' \<mapsto> File ''old''], read_only = {}\<rparr>)"
proof -
  let ?fs = "\<lparr>nodes = [''.'' \<mapsto> Directory, ''Makefile'' \<mapsto> File ''old''], read_only = {}\<rparr>"
  have h: "path_exists ?fs ''Makefile''"
    by (simp add: path_exists_def)
  show ?thesis
    using h write_existing_no_overwrite [OF h, of example_str_result
        "\<lparr>klass = DefaultMakefile, server_config = ServerConfig (''NPROC=4'', 0)\<rparr>"]
    by simp
qed




text \<open>
  C10. When the path exists, \<^verbatim>\<open>write\<close> raises \<^verbatim>\<open>IOError\<close> for every \<^verbatim>\<open>overwrite\<close> other
  than the object \<^verbatim>\<open>True\<close>, a truthy \<^verbatim>\<open>1\<close> or \<^verbatim>\<open>"yes"\<close> included, and leaves the file
  system as it was. With \<^verbatim>\<open>True\<close> it goes on to lines 21 and 22, and replaces a regular
  file that may be written to.
\<close>

theorem write_overwrite_only_True:
  assumes "path_exists fs path"
  shows "(overwrite \<noteq> PyBool True \<longrightarrow>
            Makefile_write str_config self fs path overwrite
            = (Inl (IOError (''File '' @ path @ '' exists and overwrite is not True.'')), fs))
         \<and> (overwrite = PyBool True \<longrightarrow>
            Makefile_write str_config self fs path overwrite
            = write_file str_config self fs path)
         \<and> (overwrite = PyBool True \<and> nodes fs path = Some (File old)
              \<and> path \<notin> read_only fs \<and> str_config (server_config self) = Inr s \<longrightarrow>
            Makefile_write str_config self fs path overwrite
            = (Inr (), fs\<lparr>nodes := (nodes fs)(path \<mapsto> File (Makefile_str (\<lambda>c. s) self))\<rparr>))"
proof (intro conjI impI)
  assume "overwrite \<noteq> PyBool True"
  with assms show "Makefile_write str_config self fs path overwrite
      = (Inl (IOError (''File '' @ path @ '' exists and overwrite is not True.'')), fs)"
    by (simp add: Makefile_write_def is_not_True_def)
next
  assume "overwrite = PyBool True"
  then show "Makefile_write str_config self fs path overwrite = write_file str_config self fs path"
    by (simp add: Makefile_write_def is_not_True_def)
next
  assume a: "overwrite = PyBool True \<and> nodes fs path = Some (File old)
      \<and> path \<notin> read_only fs \<and> str_config (server_config self) = Inr s"
  then have "open_w fs path = Inr (fs\<lparr>nodes := (nodes fs)(path \<mapsto> File [])\<rparr>)"
    by (intro open_w_existing_file [of fs path old]) simp_all
  then have "write_file str_config self fs path
      = (Inr (), fs\<lparr>nodes := (nodes fs)(path \<mapsto> File (Makefile_str (\<lambda>c. s) self))\<rparr>)"
    using a by (intro write_file_stores_text) simp_all
  with a show "Makefile_write str_config self fs path overwrite
      = (Inr (), fs\<lparr>nodes := (nodes fs)(path \<mapsto> File (Makefile_str (\<lambda>c. s) self))\<rparr>)"
    by (simp add: Makefile_write_def is_not_True_def)
qed

theorem write_overwrite_only_True_witness:
  "path_exists
     \<lparr>nodes = [''.'' \<mapsto> Directory, ''Makefile'' \<mapsto> File ''old''], read_only = {}\<rparr> ''Makefile''
   \<and> PyInt 1 \<noteq> PyBool True
   \<and> Makefile_write example_str_result
        \<lparr>klass = DefaultMakefile, server_config = ServerConfig (''NPROC=4'', 0)\<rparr>
        \<lparr>nodes = [''.'' \<mapsto> Directory, ''Makefile'' \<mapsto> File ''old''], read_only = {}\<rparr>
        ''Makefile'' (PyInt 1)
       = (Inl (IOError ''File Makefile exists and overwrite is not True.''),
          \<lparr>nodes = [''.'' \<mapsto> Directory, ''Makefile'' \<mapsto> File ''old''], read_only = {}\<rparr>)
   \<and> PyStr ''yes'' \<noteq> PyBool True
   \<and> Makefile_write example_str_result
        \<lparr>klass = DefaultMakefile, server_config = ServerConfig (''NPROC=4'', 0)\<rparr>
        \<lparr>nodes = [''.'' \<mapsto> Directory, ''Makefile'' \<mapsto> File ''old''], read_only = {}\<rparr>
        ''Makefile'' (PyStr ''yes'')
       = (Inl (IOError ''File Makefile exists and overwrite is not True.''),
          \<lparr>nodes = [''.'' \<mapsto> Directory, ''Makefile'' \<mapsto> File ''old''], read_only = {}\<rparr>)
   \<and> example_str_result (ServerConfig (''NPROC=4'', 0)) = Inr ''NPROC=4''
   \<and> Makefile_write example_str_result
        \<lparr>klass = DefaultMakefile, server_config = ServerConfig (''NPROC=4'', 0)\<rparr>
        \<lparr>nodes = [''.'' \<mapsto> Directory, ''Makefile'' \<mapsto> File ''old''], read_only = {}\<rparr>
        ''Makefile'' (PyBool True)
       = (Inr (),
          \<lparr>nodes = [''.'' \<mapsto> Directory, ''Makefile'' \<mapsto>
              File (Makefile_str (\<lambda>c. ''NPROC=4'')
                \<lparr>klass = DefaultMakefile, server_config = ServerConfig (''NPROC=4'', 0 :: nat)\<rparr>)],
            read_only = {}\<rparr>)"
proof -
  let ?m = "\<lparr>klass = DefaultMakefile, server_config = ServerConfig (''NPROC=4'', 0 :: nat)\<rparr>"
  let ?fs = "\<lparr>nodes = [''.'' \<mapsto> Directory, ''Makefile'' \<mapsto> File ''old''], read_only = {}\<rparr>"
  have h: "path_exists ?fs ''Makefile''"
    by (simp add: path_exists_def)
  have s: "example_str_result (ServerConfig (''NPROC=4'', 0)) = Inr ''NPROC=4''"
    by (simp add: example_str_result_def example_str_def)
  have f: "nodes ?fs ''Makefile'' = Some (File ''old'') \<and> ''Makefile'' \<notin> read_only ?fs
      \<and> example_str_result (server_config ?m) = Inr ''NPROC=4''"
    using s by simp
  note t = write_overwrite_only_True [OF h, where str_config = example_str_result and self = ?m]
  from t [of "PyInt 1"]
  have a: "Makefile_write example_str_result ?m ?fs ''Makefile'' (PyInt 1)
      = (Inl (IOError (''File '' @ ''Makefile'' @ '' exists and overwrite is not True.'')), ?fs)"
    by simp
  from t [of "PyStr ''yes''"]
  have b: "Makefile_write example_str_result ?m ?fs ''Makefile'' (PyStr ''yes'')
      = (Inl (IOError (''File '' @ ''Makefile'' @ '' exists and overwrite is not True.'')), ?fs)"
    by simp
  from f t [of "PyBool True" "''old''" "''NPROC=4''"]
  have c: "Makefile_write example_str_result ?m ?fs ''Makefile'' (PyBool True)
      = (Inr (), ?fs\<lparr>nodes := (nodes ?fs)(''Makefile'' \<mapsto>
          File (Makefile_str (\<lambda>c. ''NPROC=4'') ?m))\<rparr>)"
    by blast
  show ?thesis
    using h s by (simp add: a b c)
qed

subsection \<open>Four-space sequences and tabs\<close>

text \<open>
  C4, as the claim states it, fails in its second half: the replacement is not limited to
  leading four-space sequences. A configuration whose \<^verbatim>\<open>str\<close> is
  \<^verbatim>\<open>MPI_LAUNCHER=mpirun    -np\<close> gives, as line 3 of the script, that text with a tab
  between \<^verbatim>\<open>mpirun\<close> and \<^verbatim>\<open>-np\<close>.
\<close>

theorem only_leading_four_spaces_counterexample:
  "example_str (ServerConfig (''MPI_LAUNCHER=mpirun    -np'', 0)) = ''MPI_LAUNCHER=mpirun    -np''
   \<and> str_lines (Makefile_str example_str \<lparr>klass = DefaultMakefile,
        server_config = ServerConfig (''MPI_LAUNCHER=mpirun    -np'', 0)\<rparr>) ! 3
     = ''MPI_LAUNCHER=mpirun'' @ tab @ ''-np''"
  by (simp add: str_lines_Makefile_str Makefile_f_def DefaultMakefile_f_def example_str_def)

text \<open>
  C4, amended. Let \<open>l\<close> be a line of an element of \<^verbatim>\<open>f\<close>. The script has the line
  \<open>tabbed l\<close>, that is \<open>l\<close> with every four-space sequence replaced by a tab, from the
  left, wherever it stands in the line. When \<open>l\<close> begins with a multiple of four spaces
  and has no four-space sequence after them, \<open>tabbed l\<close> is \<open>l\<close> with one tab for each
  four leading spaces and the rest unchanged. Every line of the constant elements (all
  elements but the configuration text, element 3) is of that kind, with 0, 4 or 8
  leading spaces.
\<close>

theorem four_space_sequences_to_tabs:
  assumes "i < length (Makefile_f str_config self)"
    and "l \<in> set (str_lines (Makefile_f str_config self ! i))"
  shows "tabbed l \<in> set (str_lines (Makefile_str str_config self))
    \<and> (indent l mod 4 = 0 \<and> \<not> sublist four_spaces (drop (indent l) l) \<longrightarrow>
         tabbed l = replicate (indent l div 4) (CHR 0x09) @ drop (indent l) l)
    \<and> (i \<noteq> 3 \<longrightarrow>
         indent l \<in> {0, 4, 8} \<and> \<not> sublist four_spaces (drop (indent l) l))"
proof -
  from assms(1) have "Makefile_f str_config self ! i \<in> set (Makefile_f str_config self)"
    by (rule nth_mem)
  then have a: "tabbed l \<in> set (str_lines (Makefile_str str_config self))"
    using assms(2) by (rule tabbed_line_in_output)
  have b: "indent l mod 4 = 0 \<and> \<not> sublist four_spaces (drop (indent l) l) \<longrightarrow>
         tabbed l = replicate (indent l div 4) (CHR 0x09) @ drop (indent l) l"
    by (intro impI, elim conjE) (rule tabbed_by_indent)
  have c: "i \<noteq> 3 \<longrightarrow> indent l \<in> {0, 4, 8} \<and> \<not> sublist four_spaces (drop (indent l) l)"
  proof
    assume "i \<noteq> 3"
    with assms(1) have "\<forall>l \<in> set (str_lines (Makefile_f str_config self ! i)).
        indent l \<in> {0, 4, 8} \<and> \<not> sublist four_spaces (drop (indent l) l)"
      by (rule nth_fixed_lines_indent)
    then show "indent l \<in> {0, 4, 8} \<and> \<not> sublist four_spaces (drop (indent l) l)"
      using assms(2) by (rule bspec)
  qed
  from a b c show ?thesis
    by (intro conjI)
qed

theorem four_space_sequences_to_tabs_witness:
  "7 < length (Makefile_f example_str \<lparr>klass = DefaultMakefile, server_config = ServerConfig (''NPROC=4'', 0)\<rparr>)
   \<and> ''    tail -f outputs/mirror.out  outputs/fatal.error''
       \<in> set (str_lines (Makefile_f example_str
            \<lparr>klass = DefaultMakefile, server_config = ServerConfig (''NPROC=4'', 0)\<rparr> ! 7))
   \<and> CHR 0x09 # ''tail -f outputs/mirror.out  outputs/fatal.error''
       \<in> set (str_lines (Makefile_str example_str
            \<lparr>klass = DefaultMakefile, server_config = ServerConfig (''NPROC=4'', 0)\<rparr>))"
proof -
  let ?m = "\<lparr>klass = DefaultMakefile, server_config = ServerConfig (''NPROC=4'', 0 :: nat)\<rparr>"
  let ?l = "''    tail -f outputs/mirror.out  outputs/fatal.error''"
  have h1: "7 < length (Makefile_f example_str ?m)"
    by (simp add: Makefile_f_def DefaultMakefile_f_def)
  have f7: "Makefile_f example_str ?m ! 7 = Makefile_tail"
    by (simp add: Makefile_f_def DefaultMakefile_f_def)
  have "?l \<in> set (str_lines Makefile_tail)"
    by code_simp
  then have h2: "?l \<in> set (str_lines (Makefile_f example_str ?m ! 7))"
    by (simp only: f7)
  have t: "tabbed ?l = CHR 0x09 # ''tail -f outputs/mirror.out  outputs/fatal.error''"
    by code_simp
  from four_space_sequences_to_tabs [OF h1 h2]
  have "tabbed ?l \<in> set (str_lines (Makefile_str example_str ?m))"
    by (rule conjunct1)
  then have "CHR 0x09 # ''tail -f outputs/mirror.out  outputs/fatal.error''
      \<in> set (str_lines (Makefile_str example_str ?m))"
    by (simp only: t)
  with h1 h2 show ?thesis
    by (intro conjI)
qed

subsection \<open>The two renderers side by side\<close>

text \<open>
  C6, as the claim states it, fails: the \<^verbatim>\<open>default\<close> sections of the two classes differ,
  and so does line 5 of the two scripts for one configuration.
\<close>

theorem default_sections_differ_counterexample:
  "SlurmMakefile_default \<noteq> DefaultMakefile_default
   \<and> str_lines (Makefile_str example_str
        \<lparr>klass = SlurmMakefile, server_config = SlurmConfig (''NPROC=4'', 0)\<rparr>) ! 5
     = ''default: slurm''
   \<and> str_lines (Makefile_str example_str
        \<lparr>klass = DefaultMakefile, server_config = SlurmConfig (''NPROC=4'', 0)\<rparr>) ! 5
     = ''default: symlinks''"
  by (simp add: str_lines_Makefile_str Makefile_f_def DefaultMakefile_f_def SlurmMakefile_f_def
      example_str_def SlurmMakefile_default_def DefaultMakefile_default_def)

text \<open>
  C6, amended. For a batch configuration the script of the batch renderer and the script
  of the default renderer for the same configuration have the same header lines, the same
  configuration lines, the same \<^verbatim>\<open>symlinks\<close> lines and the same \<^verbatim>\<open>tail\<close> lines; the batch
  script has the lines of the \<^verbatim>\<open>slurm\<close> target, which begins \<^verbatim>\<open>slurm: symlinks\<close>, between
  \<^verbatim>\<open>symlinks\<close> and \<^verbatim>\<open>run\<close>; its \<^verbatim>\<open>default\<close> target reads \<^verbatim>\<open>default: slurm\<close> where the
  default script reads \<^verbatim>\<open>default: symlinks\<close>, and each script has the \<^verbatim>\<open>run\<close> target of
  its own class.
\<close>

theorem slurm_output_against_default_output:
  \<open>str_lines (Makefile_str str_config \<lparr>klass = SlurmMakefile, server_config = SlurmConfig c\<rparr>)
     = [''# Makefile driver generated by PySCHISM.'',
        ''MAKEFILE_PATH:=$(abspath $(lastword $(MAKEFILE_LIST)))'',
        ''ROOT_DIR:=$(dir $(MAKEFILE_PATH))'']
       @ map tabbed (str_lines (str_config (SlurmConfig c)))
       @ ['''', ''default: slurm'', '''']
       @ map tabbed (str_lines Makefile_symlinks)
       @ map tabbed (str_lines SlurmMakefile_slurm)
       @ map tabbed (str_lines SlurmMakefile_run)
       @ map tabbed (str_lines Makefile_tail)
   \<and> str_lines (Makefile_str str_config \<lparr>klass = DefaultMakefile, server_config = SlurmConfig c\<rparr>)
     = [''# Makefile driver generated by PySCHISM.'',
        ''MAKEFILE_PATH:=$(abspath $(lastword $(MAKEFILE_LIST)))'',
        ''ROOT_DIR:=$(dir $(MAKEFILE_PATH))'']
       @ map tabbed (str_lines (str_config (SlurmConfig c)))
       @ ['''', ''default: symlinks'', '''']
       @ map tabbed (str_lines Makefile_symlinks)
       @ map tabbed (str_lines DefaultMakefile_run)
       @ map tabbed (str_lines Makefile_tail)
   \<and> take 2 (map tabbed (str_lines SlurmMakefile_slurm)) = ['''', ''slurm: symlinks'']\<close>
proof -
  have "take 2 (map tabbed (str_lines SlurmMakefile_slurm)) = ['''', ''slurm: symlinks'']"
    by code_simp
  then show ?thesis
    by (simp add: str_lines_Makefile_str Makefile_f_def DefaultMakefile_f_def SlurmMakefile_f_def
        SlurmMakefile_default_def DefaultMakefile_default_def)
qed

text \<open>
  C8. The second line of \<^verbatim>\<open>SlurmMakefile.run\<close> is the dependency line of the \<^verbatim>\<open>run\<close>
  target, the replacement of four-space sequences leaves it as it is, and for every batch
  configuration it is a line of the script, character for character.
\<close>

theorem run_dependency_line_literal:
  \<open>str_lines SlurmMakefile_run ! 1 = ''run: $(if ! $("$(wildcard $(SLURM_JOB_FILE))",""), slurm)''
   \<and> tabbed ''run: $(if ! $("$(wildcard $(SLURM_JOB_FILE))",""), slurm)''
       = ''run: $(if ! $("$(wildcard $(SLURM_JOB_FILE))",""), slurm)''
   \<and> ''run: $(if ! $("$(wildcard $(SLURM_JOB_FILE))",""), slurm)''
       \<in> set (str_lines (Makefile_str str_config
             \<lparr>klass = SlurmMakefile, server_config = SlurmConfig c\<rparr>))\<close>
proof -
  let ?l = \<open>''run: $(if ! $("$(wildcard $(SLURM_JOB_FILE))",""), slurm)''\<close>
  let ?m = "\<lparr>klass = SlurmMakefile, server_config = SlurmConfig c\<rparr>"
  have a: "str_lines SlurmMakefile_run ! 1 = ?l"
    by code_simp
  have b: "tabbed ?l = ?l"
    by code_simp
  have c: "?l \<in> set (str_lines SlurmMakefile_run)"
    by code_simp
  have d: "SlurmMakefile_run \<in> set (Makefile_f str_config ?m)"
    by (simp add: Makefile_f_def SlurmMakefile_f_def)
  from d c have "tabbed ?l \<in> set (str_lines (Makefile_str str_config ?m))"
    by (rule tabbed_line_in_output)
  then have "?l \<in> set (str_lines (Makefile_str str_config ?m))"
    by (simp only: b)
  with a b show ?thesis
    by (intro conjI)
qed

end
